theory Spec2Isabelle
  imports Main
begin

section \<open>JavaScript values\<close>

text \<open>
  The values that flow through \<open>client/src/contexts/AuthContext.js\<close> are JSON data from
  the server, the strings of \<open>localStorage\<close> and the literals of the file itself.
  A number is carried by its canonical string form (what \<open>String(n)\<close> gives, for instance
  \<open>''42''\<close>, \<open>''0.5''\<close>, \<open>''NaN''\<close>): the program only converts numbers to strings and
  tests them for truthiness. An object is the list of its own data properties; an earlier
  entry of the list shadows a later one with the same key.
\<close>

datatype jsval =
    JUndefined
  | JNull
  | JBool bool
  | JNum string
  | JStr string
  | JArr "jsval list"
  | JObj "(string \<times> jsval) list"

text \<open>
  What the program can throw: a TypeError (a property read on \<open>null\<close> or \<open>undefined\<close>, a
  value that has no string form) and the QuotaExceededError of \<open>localStorage.setItem\<close>.
\<close>

datatype js_error = TypeError | QuotaExceededError

text \<open>\<open>v == null\<close>: the two values on which a property read throws.\<close>

definition nullish :: "jsval \<Rightarrow> bool" where
  "nullish v = (v = JNull \<or> v = JUndefined)"

text \<open>A value is present when it is neither \<open>null\<close> nor \<open>undefined\<close>.\<close>

definition present :: "jsval \<Rightarrow> bool" where
  "present v = (\<not> nullish v)"

text \<open>
  ToBoolean: \<open>undefined\<close>, \<open>null\<close>, \<open>false\<close>, \<open>0\<close>, \<open>NaN\<close> and the empty string are
  falsy; every array and object is truthy.
\<close>

fun truthy :: "jsval \<Rightarrow> bool" where
  "truthy JUndefined = False"
| "truthy JNull = False"
| "truthy (JBool b) = b"
| "truthy (JNum n) = (n \<noteq> ''0'' \<and> n \<noteq> ''NaN'')"
| "truthy (JStr s) = (s \<noteq> [])"
| "truthy (JArr xs) = True"
| "truthy (JObj ps) = True"

text \<open>
  \<open>v.k\<close> for the keys the program reads (\<open>token\<close>, \<open>user\<close>, \<open>userType\<close>, \<open>response\<close>,
  \<open>data\<close>, \<open>message\<close>), none of which a prototype defines: a TypeError on \<open>null\<close> and
  \<open>undefined\<close>, the own property of an object, \<open>undefined\<close> where there is none and on
  every primitive and array.
\<close>

fun get_prop :: "jsval \<Rightarrow> string \<Rightarrow> js_error + jsval" where
  "get_prop JUndefined k = Inl TypeError"
| "get_prop JNull k = Inl TypeError"
| "get_prop (JObj ps) k = (case map_of ps k of None \<Rightarrow> Inr JUndefined | Some v \<Rightarrow> Inr v)"
| "get_prop v k = Inr JUndefined"

text \<open>\<open>v?.k\<close>: \<open>undefined\<close> on \<open>null\<close> and \<open>undefined\<close>, the property read otherwise.\<close>

definition opt_get :: "jsval \<Rightarrow> string \<Rightarrow> js_error + jsval" where
  "opt_get v k = (if nullish v then Inr JUndefined else get_prop v k)"

text \<open>\<open>a || b\<close> on values.\<close>

definition js_or :: "jsval \<Rightarrow> jsval \<Rightarrow> jsval" where
  "js_or a b = (if truthy a then a else b)"

fun join_comma :: "string list \<Rightarrow> string" where
  "join_comma [] = []"
| "join_comma [s] = s"
| "join_comma (s # t # ss) = s @ '','' @ join_comma (t # ss)"

text \<open>
  ToString, which \<open>localStorage.setItem\<close> applies to the value it stores. An array joins
  the strings of its elements with commas, \<open>null\<close> and \<open>undefined\<close> elements as empty
  strings. An object without an own \<open>toString\<close> property gives \<open>[object Object]\<close>. With
  one, whose value is data and so not callable, the conversion goes on to \<open>valueOf\<close>,
  which is not callable either or returns the object itself: a TypeError. The error of an
  element is the error of the array.
\<close>

fun to_string :: "jsval \<Rightarrow> js_error + string"
  and to_strings :: "jsval list \<Rightarrow> js_error + string list" where
  "to_string JUndefined = Inr ''undefined''"
| "to_string JNull = Inr ''null''"
| "to_string (JBool b) = Inr (if b then ''true'' else ''false'')"
| "to_string (JNum n) = Inr n"
| "to_string (JStr s) = Inr s"
| "to_string (JArr xs) =
     (case to_strings xs of Inl e \<Rightarrow> Inl e | Inr ss \<Rightarrow> Inr (join_comma ss))"
| "to_string (JObj ps) =
     (if ''toString'' \<in> set (map fst ps) then Inl TypeError else Inr ''[object Object]'')"
| "to_strings [] = Inr []"
| "to_strings (x # xs) =
     (case (if nullish x then Inr [] else to_string x) of
        Inl e \<Rightarrow> Inl e
      | Inr s \<Rightarrow> (case to_strings xs of Inl e \<Rightarrow> Inl e | Inr ss \<Rightarrow> Inr (s # ss)))"

section \<open>State, actions and durable storage\<close>

text \<open>
  \<open>isAuthenticated\<close> is only ever assigned the literals \<open>true\<close> and \<open>false\<close>; the other
  fields receive payloads, so they hold any value.
\<close>

record auth_state =
  user :: jsval
  token :: jsval
  isAuthenticated :: bool
  loading :: jsval
  error :: jsval

text \<open>
  Of \<open>localStorage\<close> the program uses the slot keyed \<open>token\<close> only: \<open>None\<close> when the key
  is not stored, \<open>Some s\<close> when it holds the string \<open>s\<close>. How much the slot can hold is
  the browser's matter (the quota of the origin, less what its other keys use), so it is
  a parameter: \<open>fits s\<close> says that the string \<open>s\<close> can be stored under the key.
\<close>

type_synonym storage = "string option"

definition getItem :: "storage \<Rightarrow> jsval" where
  "getItem st = (case st of None \<Rightarrow> JNull | Some s \<Rightarrow> JStr s)"

text \<open>
  \<open>setItem\<close> converts its argument to a string, which can throw, and throws a
  QuotaExceededError when the string does not fit. A throw leaves the slot as it was.
\<close>

definition setItem :: "(string \<Rightarrow> bool) \<Rightarrow> jsval \<Rightarrow> storage \<Rightarrow> js_error + storage" where
  "setItem fits v st =
    (case to_string v of
       Inl e \<Rightarrow> Inl e
     | Inr s \<Rightarrow> if fits s then Inr (Some s) else Inl QuotaExceededError)"

text \<open>
  A storage whose slot holds up to \<open>n\<close> characters; a \<open>char\<close> of the model stands for a
  code unit of the browser's string.
\<close>

definition within :: "nat \<Rightarrow> string \<Rightarrow> bool" where
  "within n s = (length s \<le> n)"

definition removeItem :: "storage \<Rightarrow> storage" where
  "removeItem st = None"

definition initialState :: "storage \<Rightarrow> auth_state" where
  "initialState st =
     \<lparr>user = JNull, token = getItem st, isAuthenticated = False,
      loading = JBool True, error = JNull\<rparr>"

text \<open>An action object: \<open>payload\<close> is \<open>undefined\<close> when the object has none.\<close>

record action =
  atype :: jsval
  payload :: jsval

definition LOGIN_SUCCESS :: string where "LOGIN_SUCCESS = ''LOGIN_SUCCESS''"
definition LOGIN_FAIL :: string where "LOGIN_FAIL = ''LOGIN_FAIL''"
definition REGISTER_SUCCESS :: string where "REGISTER_SUCCESS = ''REGISTER_SUCCESS''"
definition REGISTER_FAIL :: string where "REGISTER_FAIL = ''REGISTER_FAIL''"
definition LOGOUT :: string where "LOGOUT = ''LOGOUT''"
definition USER_LOADED :: string where "USER_LOADED = ''USER_LOADED''"
definition AUTH_ERROR :: string where "AUTH_ERROR = ''AUTH_ERROR''"
definition CLEAR_ERRORS :: string where "CLEAR_ERRORS = ''CLEAR_ERRORS''"
definition SET_LOADING :: string where "SET_LOADING = ''SET_LOADING''"

definition AUTH_ACTIONS :: "string list" where
  "AUTH_ACTIONS =
     [LOGIN_SUCCESS, LOGIN_FAIL, REGISTER_SUCCESS, REGISTER_FAIL, LOGOUT,
      USER_LOADED, AUTH_ERROR, CLEAR_ERRORS, SET_LOADING]"

section \<open>The reducer\<close>

text \<open>
  \<open>authReducer\<close> takes the state, the action and the storage, and returns the new state
  and storage, or what it throws. Nothing in it catches. In the first case it throws the
  TypeError of reading \<open>action.payload.token\<close> on a \<open>null\<close> or \<open>undefined\<close> payload,
  and whatever \<open>setItem\<close> throws; both come before the new state is built and leave the
  storage as it was, and after them the read of \<open>action.payload.user\<close> cannot throw.
  The \<open>switch\<close> compares \<open>action.type\<close> with \<open>===\<close>, case by case in the order of the
  source.
\<close>

definition authReducer ::
  "(string \<Rightarrow> bool) \<Rightarrow> auth_state \<Rightarrow> action \<Rightarrow> storage \<Rightarrow>
   js_error + (auth_state \<times> storage)" where
  "authReducer fits state a st =
    (if atype a = JStr LOGIN_SUCCESS \<or> atype a = JStr REGISTER_SUCCESS then
       (case get_prop (payload a) ''token'' of
          Inl e \<Rightarrow> Inl e
        | Inr tok \<Rightarrow>
           (case setItem fits tok st of
              Inl e \<Rightarrow> Inl e
            | Inr st' \<Rightarrow>
               (case get_prop (payload a) ''user'' of
                  Inl e \<Rightarrow> Inl e
                | Inr usr \<Rightarrow>
                    Inr (state\<lparr>token := tok, user := usr, isAuthenticated := True,
                               loading := JBool False, error := JNull\<rparr>,
                         st'))))
     else if atype a = JStr USER_LOADED then
       Inr (state\<lparr>user := payload a, isAuthenticated := True, loading := JBool False\<rparr>, st)
     else if atype a = JStr LOGIN_FAIL \<or> atype a = JStr REGISTER_FAIL
             \<or> atype a = JStr AUTH_ERROR then
       Inr (state\<lparr>token := JNull, user := JNull, isAuthenticated := False,
                  loading := JBool False, error := payload a\<rparr>,
            removeItem st)
     else if atype a = JStr LOGOUT then
       Inr (state\<lparr>token := JNull, user := JNull, isAuthenticated := False,
                  loading := JBool False, error := JNull\<rparr>,
            removeItem st)
     else if atype a = JStr CLEAR_ERRORS then
       Inr (state\<lparr>error := JNull\<rparr>, st)
     else if atype a = JStr SET_LOADING then
       Inr (state\<lparr>loading := payload a\<rparr>, st)
     else Inr (state, st))"

text \<open>
  A sequence of actions, reduced in order from a state and a storage; a throw of the
  reducer ends the run.
\<close>

fun reduce_all ::
  "(string \<Rightarrow> bool) \<Rightarrow> auth_state \<times> storage \<Rightarrow> action list \<Rightarrow>
   js_error + (auth_state \<times> storage)" where
  "reduce_all fits c [] = Inr c"
| "reduce_all fits c (a # as) =
     (case authReducer fits (fst c) a (snd c) of
        Inl e \<Rightarrow> Inl e
      | Inr c' \<Rightarrow> reduce_all fits c' as)"

text \<open>
  The precondition the events of a successful operation have: a \<open>LOGIN_SUCCESS\<close> or
  \<open>REGISTER_SUCCESS\<close> payload whose \<open>user\<close> is present, a \<open>USER_LOADED\<close>
  payload that is present. Every other event satisfies it.
\<close>

definition carries_user :: "action \<Rightarrow> bool" where
  "carries_user a =
    (if atype a = JStr LOGIN_SUCCESS \<or> atype a = JStr REGISTER_SUCCESS then
       (case get_prop (payload a) ''user'' of Inl e \<Rightarrow> False | Inr u \<Rightarrow> present u)
     else if atype a = JStr USER_LOADED then present (payload a)
     else True)"

text \<open>
  The events on which the reducer has nothing to throw: every event but a
  \<open>LOGIN_SUCCESS\<close> or \<open>REGISTER_SUCCESS\<close>, and of these the ones whose payload is
  present and whose \<open>token\<close> has a string form that fits the storage.
\<close>

definition stores_token :: "(string \<Rightarrow> bool) \<Rightarrow> action \<Rightarrow> bool" where
  "stores_token fits a =
    (if atype a = JStr LOGIN_SUCCESS \<or> atype a = JStr REGISTER_SUCCESS then
       (case get_prop (payload a) ''token'' of
          Inl e \<Rightarrow> False
        | Inr tok \<Rightarrow> (case to_string tok of Inl e \<Rightarrow> False | Inr s \<Rightarrow> fits s))
     else True)"

section \<open>Queries\<close>

text \<open>
  \<open>hasRole\<close> returns \<open>state.user && state.user.userType === role\<close>: the value of
  \<open>state.user\<close> itself when that is falsy, the boolean of the comparison otherwise.
  The role is a string, so \<open>===\<close> holds exactly when \<open>userType\<close> is that string.
\<close>

definition hasRole :: "auth_state \<Rightarrow> string \<Rightarrow> js_error + jsval" where
  "hasRole state role =
    (if \<not> truthy (user state) then Inr (user state)
     else (case get_prop (user state) ''userType'' of
             Inl e \<Rightarrow> Inl e
           | Inr t \<Rightarrow> Inr (JBool (t = JStr role))))"

text \<open>\<open>allowedRoles.includes(v)\<close> for an array of role strings.\<close>

definition js_includes :: "string list \<Rightarrow> jsval \<Rightarrow> bool" where
  "js_includes allowedRoles v = (v \<in> set (map JStr allowedRoles))"

text \<open>
  \<open>canAccess\<close> reads \<open>state.user.userType\<close> without a check of \<open>state.user\<close>: a TypeError
  when the state is authenticated and the user is \<open>null\<close> or \<open>undefined\<close>.
\<close>

definition canAccess :: "auth_state \<Rightarrow> string list \<Rightarrow> js_error + bool" where
  "canAccess state allowedRoles =
    (if \<not> isAuthenticated state then Inr False
     else (case get_prop (user state) ''userType'' of
             Inl e \<Rightarrow> Inl e
           | Inr t \<Rightarrow> Inr (js_includes allowedRoles t)))"

section \<open>Actions\<close>

text \<open>
  What an action does besides returning is a list of effects, in order: the request it
  sends, the actions it dispatches (React queues them for the reducer) and the
  notifications it shows.
\<close>

datatype effect =
    HttpPost string jsval
  | HttpPut string jsval
  | Dispatch action
  | ToastSuccess string
  | ToastError jsval

text \<open>
  How the awaited axios promise settles: fulfilled with a response object, of which the
  program reads \<open>data\<close> only (\<open>Resolved d\<close> has \<open>res.data = d\<close>), or rejected with an
  Error object, given by its properties.
\<close>

datatype http_outcome =
    Resolved jsval
  | Rejected "(string \<times> jsval) list"

text \<open>The error object a \<open>catch\<close> receives; it has no \<open>response\<close> property.\<close>

definition thrown :: "js_error \<Rightarrow> jsval" where
  "thrown e =
     JObj [(''name'', JStr (case e of TypeError \<Rightarrow> ''TypeError''
                                     | QuotaExceededError \<Rightarrow> ''QuotaExceededError''))]"

text \<open>\<open>error.response?.data?.message || dflt\<close>\<close>

definition failure_message :: "jsval \<Rightarrow> string \<Rightarrow> js_error + jsval" where
  "failure_message err dflt =
    (case get_prop err ''response'' of
       Inl e \<Rightarrow> Inl e
     | Inr r \<Rightarrow>
        (case opt_get r ''data'' of
           Inl e \<Rightarrow> Inl e
         | Inr d \<Rightarrow>
            (case opt_get d ''message'' of
               Inl e \<Rightarrow> Inl e
             | Inr m \<Rightarrow> Inr (js_or m (JStr dflt)))))"

text \<open>
  The \<open>catch\<close> block of \<open>login\<close>, entered with the effects so far. \<open>Inl\<close> is an
  exception that leaves the block, and so reaches the caller.
\<close>

definition login_catch :: "jsval \<Rightarrow> effect list \<Rightarrow> js_error + (effect list \<times> jsval)" where
  "login_catch err sofar =
    (case failure_message err ''Login failed'' of
       Inl e \<Rightarrow> Inl e
     | Inr message \<Rightarrow>
         Inr (sofar @ [Dispatch \<lparr>atype = JStr LOGIN_FAIL, payload = message\<rparr>,
                      ToastError message],
              JObj [(''success'', JBool False), (''message'', message)]))"

text \<open>
  \<open>login\<close>: the \<open>try\<close> block dispatches \<open>SET_LOADING\<close>, awaits the request, dispatches
  \<open>LOGIN_SUCCESS\<close> with \<open>res.data\<close>, notifies, and evaluates \<open>res.data.user\<close> for the
  value it returns. A rejected request and a TypeError of that last read both enter the
  \<open>catch\<close> block.
\<close>

definition login :: "jsval \<Rightarrow> jsval \<Rightarrow> http_outcome \<Rightarrow> js_error + (effect list \<times> jsval)" where
  "login email password outcome =
    (let started =
       [Dispatch \<lparr>atype = JStr SET_LOADING, payload = JBool True\<rparr>,
        HttpPost ''/api/auth/login'' (JObj [(''email'', email), (''password'', password)])]
     in case outcome of
          Rejected props \<Rightarrow> login_catch (JObj props) started
        | Resolved d \<Rightarrow>
           (let sofar = started @
                  [Dispatch \<lparr>atype = JStr LOGIN_SUCCESS, payload = d\<rparr>,
                   ToastSuccess ''Login successful!'']
            in case get_prop d ''user'' of
                 Inl e \<Rightarrow> login_catch (thrown e) sofar
               | Inr u \<Rightarrow> Inr (sofar, JObj [(''success'', JBool True), (''user'', u)])))"

definition updateProfile_catch ::
  "jsval \<Rightarrow> effect list \<Rightarrow> js_error + (effect list \<times> jsval)" where
  "updateProfile_catch err sofar =
    (case failure_message err ''Profile update failed'' of
       Inl e \<Rightarrow> Inl e
     | Inr message \<Rightarrow>
         Inr (sofar @ [ToastError message],
              JObj [(''success'', JBool False), (''message'', message)]))"

text \<open>
  \<open>updateProfile\<close>: \<open>res.data.user\<close> is evaluated to build the \<open>USER_LOADED\<close> action, so a
  TypeError there comes before the dispatch.
\<close>

definition updateProfile :: "jsval \<Rightarrow> http_outcome \<Rightarrow> js_error + (effect list \<times> jsval)" where
  "updateProfile profileData outcome =
    (let started = [HttpPut ''/api/auth/profile'' profileData]
     in case outcome of
          Rejected props \<Rightarrow> updateProfile_catch (JObj props) started
        | Resolved d \<Rightarrow>
           (case get_prop d ''user'' of
              Inl e \<Rightarrow> updateProfile_catch (thrown e) started
            | Inr u \<Rightarrow>
                Inr (started @
                       [Dispatch \<lparr>atype = JStr USER_LOADED, payload = u\<rparr>,
                        ToastSuccess ''Profile updated successfully!''],
                     JObj [(''success'', JBool True)])))"

text \<open>The actions among a list of effects, in the order they were dispatched.\<close>

fun dispatched :: "effect list \<Rightarrow> action list" where
  "dispatched [] = []"
| "dispatched (Dispatch a # es) = a # dispatched es"
| "dispatched (e # es) = dispatched es"

section \<open>Properties\<close>

lemmas action_names =
  LOGIN_SUCCESS_def LOGIN_FAIL_def REGISTER_SUCCESS_def REGISTER_FAIL_def LOGOUT_def
  USER_LOADED_def AUTH_ERROR_def CLEAR_ERRORS_def SET_LOADING_def

lemma get_prop_present: "present v \<Longrightarrow> \<exists>x. get_prop v k = Inr x"
  by (cases v) (auto simp: present_def nullish_def split: option.splits)

lemma get_prop_Inr_present: "get_prop v k = Inr x \<Longrightarrow> present v"
  by (cases v) (auto simp: present_def nullish_def)

lemma truthy_present: "truthy v \<Longrightarrow> present v"
  by (cases v) (auto simp: present_def nullish_def)

lemma opt_get_total: "\<exists>x. opt_get v k = Inr x"
  using get_prop_present [of v k] by (auto simp: opt_get_def present_def)

subsection \<open>The reducer\<close>

lemma authReducer_returns_iff:
  "(\<exists>c. authReducer fits s a st = Inr c) \<longleftrightarrow> stores_token fits a"
proof (cases "atype a = JStr LOGIN_SUCCESS \<or> atype a = JStr REGISTER_SUCCESS")
  case True
  show ?thesis
  proof (cases "get_prop (payload a) ''token''")
    case (Inl e)
    with True show ?thesis by (simp add: authReducer_def stores_token_def)
  next
    case (Inr tok)
    from get_prop_Inr_present [OF Inr] obtain usr where "get_prop (payload a) ''user'' = Inr usr"
      using get_prop_present by blast
    with True Inr show ?thesis
      by (auto simp: authReducer_def stores_token_def setItem_def split: sum.splits)
  qed
next
  case False
  then show ?thesis by (simp add: authReducer_def stores_token_def)
qed

lemma authReducer_inv:
  assumes "carries_user a" and "isAuthenticated s \<longleftrightarrow> present (user s)"
    and "authReducer fits s a st = Inr (s', st')"
  shows "isAuthenticated s' \<longleftrightarrow> present (user s')"
proof (cases "atype a = JStr LOGIN_SUCCESS \<or> atype a = JStr REGISTER_SUCCESS")
  case True
  with assms(1) obtain u where u: "get_prop (payload a) ''user'' = Inr u" "present u"
    by (auto simp: carries_user_def split: sum.splits)
  with True assms(3) show ?thesis
    by (auto simp: authReducer_def split: sum.splits)
next
  case False
  with assms show ?thesis
    by (auto simp: authReducer_def carries_user_def present_def nullish_def split: if_splits)
qed

lemma reduce_all_inv:
  "list_all carries_user evs \<Longrightarrow> (isAuthenticated (fst c) \<longleftrightarrow> present (user (fst c))) \<Longrightarrow>
   reduce_all fits c evs = Inr (s', st') \<Longrightarrow> (isAuthenticated s' \<longleftrightarrow> present (user s'))"
proof (induction evs arbitrary: c)
  case Nil
  then show ?case by (cases c) simp
next
  case (Cons a evs)
  from Cons.prems have a: "carries_user a" and rest: "list_all carries_user evs" by simp_all
  from Cons.prems(3) obtain s1 st1
    where step: "authReducer fits (fst c) a (snd c) = Inr (s1, st1)"
      and run: "reduce_all fits (s1, st1) evs = Inr (s', st')"
    by (auto split: sum.splits)
  from authReducer_inv [OF a Cons.prems(2) step]
  have "isAuthenticated (fst (s1, st1)) \<longleftrightarrow> present (user (fst (s1, st1)))" by simp
  from Cons.IH [OF rest this run] show ?case .
qed

lemma reduce_all_returns:
  "list_all (stores_token fits) evs \<Longrightarrow> \<exists>c'. reduce_all fits c evs = Inr c'"
proof (induction evs arbitrary: c)
  case Nil
  then show ?case by simp
next
  case (Cons a evs)
  from Cons.prems have "stores_token fits a" and rest: "list_all (stores_token fits) evs"
    by simp_all
  then obtain c1 where "authReducer fits (fst c) a (snd c) = Inr c1"
    using authReducer_returns_iff [of fits "fst c" a "snd c"] by blast
  with Cons.IH [OF rest, of c1] show ?case by simp
qed

text \<open>
  C1, as stated, fails: \<open>isAuthenticated\<close> is not tied to \<open>token\<close>. From the initial state
  of an empty storage, one \<open>USER_LOADED\<close> event gives a state that is authenticated and
  has a user, with \<open>token\<close> still \<open>null\<close>.
\<close>

theorem user_loaded_without_token:
  "reduce_all (within 100) (initialState None, None)
     [\<lparr>atype = JStr USER_LOADED, payload = JObj [(''userType'', JStr ''admin'')]\<rparr>]
   = Inr (\<lparr>user = JObj [(''userType'', JStr ''admin'')], token = JNull,
           isAuthenticated = True, loading = JBool False, error = JNull\<rparr>, None)
   \<and> isAuthenticated
       \<lparr>user = JObj [(''userType'', JStr ''admin'')], token = JNull,
        isAuthenticated = True, loading = JBool False, error = JNull\<rparr>
   \<and> \<not> (present (user
            \<lparr>user = JObj [(''userType'', JStr ''admin'')], token = JNull,
             isAuthenticated = True, loading = JBool False, error = JNull\<rparr>)
        \<and> present (token
            \<lparr>user = JObj [(''userType'', JStr ''admin'')], token = JNull,
             isAuthenticated = True, loading = JBool False, error = JNull\<rparr>))"
  by (simp add: authReducer_def action_names initialState_def getItem_def
      present_def nullish_def)

text \<open>
  C1, amended: take a sequence of events whose success payloads carry a user
  (\<open>carries_user\<close>), applied to the initial state of any storage. Whenever the reducer
  reduces the whole sequence without a throw, \<open>isAuthenticated\<close> is true in the resulting
  state if and only if \<open>user\<close> is present; and it reduces the whole sequence whenever
  each \<open>LOGIN_SUCCESS\<close> and \<open>REGISTER_SUCCESS\<close> payload has a token that \<open>setItem\<close> can
  store (\<open>stores_token\<close>). Nothing is said of \<open>token\<close>.
\<close>

theorem auth_iff_user_present:
  "list_all carries_user evs \<Longrightarrow>
   (\<forall>s' st'. reduce_all fits (initialState st, st) evs = Inr (s', st') \<longrightarrow>
      (isAuthenticated s' \<longleftrightarrow> present (user s')))
   \<and> (list_all (stores_token fits) evs \<longrightarrow>
        (\<exists>s' st'. reduce_all fits (initialState st, st) evs = Inr (s', st')))"
proof (intro conjI allI impI)
  fix s' st'
  assume evs: "list_all carries_user evs"
    and run: "reduce_all fits (initialState st, st) evs = Inr (s', st')"
  have init: "isAuthenticated (fst (initialState st, st))
                \<longleftrightarrow> present (user (fst (initialState st, st)))"
    by (simp add: initialState_def present_def nullish_def)
  from reduce_all_inv [OF evs init run]
  show "isAuthenticated s' \<longleftrightarrow> present (user s')" .
next
  assume "list_all (stores_token fits) evs"
  from reduce_all_returns [OF this, of "(initialState st, st)"]
  show "\<exists>s' st'. reduce_all fits (initialState st, st) evs = Inr (s', st')" by auto
qed

text \<open>
  An instance of C1 as amended: log in, log out, then load a user, with a storage slot
  that holds a hundred characters.
\<close>

theorem auth_iff_user_present_witness:
  "list_all carries_user
     [\<lparr>atype = JStr LOGIN_SUCCESS,
       payload = JObj [(''token'', JStr ''t1''),
                       (''user'', JObj [(''userType'', JStr ''admin'')])]\<rparr>,
      \<lparr>atype = JStr LOGOUT, payload = JUndefined\<rparr>,
      \<lparr>atype = JStr USER_LOADED, payload = JObj [(''userType'', JStr ''staff'')]\<rparr>]
   \<and> list_all (stores_token (within 100))
     [\<lparr>atype = JStr LOGIN_SUCCESS,
       payload = JObj [(''token'', JStr ''t1''),
                       (''user'', JObj [(''userType'', JStr ''admin'')])]\<rparr>,
      \<lparr>atype = JStr LOGOUT, payload = JUndefined\<rparr>,
      \<lparr>atype = JStr USER_LOADED, payload = JObj [(''userType'', JStr ''staff'')]\<rparr>]
   \<and> (\<exists>s' st'. reduce_all (within 100) (initialState (Some ''t0''), Some ''t0'')
         [\<lparr>atype = JStr LOGIN_SUCCESS,
           payload = JObj [(''token'', JStr ''t1''),
                           (''user'', JObj [(''userType'', JStr ''admin'')])]\<rparr>,
          \<lparr>atype = JStr LOGOUT, payload = JUndefined\<rparr>,
          \<lparr>atype = JStr USER_LOADED, payload = JObj [(''userType'', JStr ''staff'')]\<rparr>]
         = Inr (s', st')
       \<and> (isAuthenticated s' \<longleftrightarrow> present (user s')))"
proof -
  have h: "list_all carries_user
     [\<lparr>atype = JStr LOGIN_SUCCESS,
       payload = JObj [(''token'', JStr ''t1''),
                       (''user'', JObj [(''userType'', JStr ''admin'')])]\<rparr>,
      \<lparr>atype = JStr LOGOUT, payload = JUndefined\<rparr>,
      \<lparr>atype = JStr USER_LOADED, payload = JObj [(''userType'', JStr ''staff'')]\<rparr>]"
    by (simp add: carries_user_def action_names present_def nullish_def)
  have k: "list_all (stores_token (within 100))
     [\<lparr>atype = JStr LOGIN_SUCCESS,
       payload = JObj [(''token'', JStr ''t1''),
                       (''user'', JObj [(''userType'', JStr ''admin'')])]\<rparr>,
      \<lparr>atype = JStr LOGOUT, payload = JUndefined\<rparr>,
      \<lparr>atype = JStr USER_LOADED, payload = JObj [(''userType'', JStr ''staff'')]\<rparr>]"
    by (simp add: stores_token_def action_names within_def)
  from h k auth_iff_user_present [OF h, of "within 100" "Some ''t0''"] show ?thesis by blast
qed

text \<open>
  C2: a \<open>LOGIN_FAIL\<close> event with payload \<open>"bad creds"\<close>, applied to any state and any
  storage, gives \<open>token = null\<close>, \<open>user = null\<close>, \<open>isAuthenticated = false\<close>,
  \<open>loading = false\<close>, \<open>error = "bad creds"\<close>, and the token slot of the storage removed.
\<close>

theorem login_fail_resets:
  "authReducer fits s \<lparr>atype = JStr LOGIN_FAIL, payload = JStr ''bad creds''\<rparr> st =
     Inr (\<lparr>user = JNull, token = JNull, isAuthenticated = False, loading = JBool False,
           error = JStr ''bad creds''\<rparr>, None)"
  by (simp add: authReducer_def action_names removeItem_def)

text \<open>
  C3: a \<open>LOGOUT\<close> event, applied to any state (an authenticated one in particular), clears
  \<open>token\<close>, \<open>user\<close> and \<open>error\<close>, sets \<open>isAuthenticated = false\<close> and removes the stored
  token; reducing \<open>LOGOUT\<close> twice gives what reducing it once gives.
\<close>

theorem logout_clears_idempotent:
  "authReducer fits s \<lparr>atype = JStr LOGOUT, payload = p\<rparr> st =
     Inr (\<lparr>user = JNull, token = JNull, isAuthenticated = False, loading = JBool False,
           error = JNull\<rparr>, None)
   \<and> reduce_all fits (s, st)
       [\<lparr>atype = JStr LOGOUT, payload = p\<rparr>, \<lparr>atype = JStr LOGOUT, payload = p\<rparr>]
     = reduce_all fits (s, st) [\<lparr>atype = JStr LOGOUT, payload = p\<rparr>]"
  by (simp add: authReducer_def action_names removeItem_def)

text \<open>
  C4: a \<open>CLEAR_ERRORS\<close> event sets \<open>error\<close> to \<open>null\<close>, leaves \<open>user\<close>, \<open>token\<close>,
  \<open>isAuthenticated\<close> and \<open>loading\<close> as they were, and returns the storage it was given.
\<close>

theorem clear_errors_frame:
  "authReducer fits s \<lparr>atype = JStr CLEAR_ERRORS, payload = p\<rparr> st
     = Inr (s\<lparr>error := JNull\<rparr>, st)
   \<and> error (s\<lparr>error := JNull\<rparr>) = JNull
   \<and> user (s\<lparr>error := JNull\<rparr>) = user s
   \<and> token (s\<lparr>error := JNull\<rparr>) = token s
   \<and> isAuthenticated (s\<lparr>error := JNull\<rparr>) = isAuthenticated s
   \<and> loading (s\<lparr>error := JNull\<rparr>) = loading s"
  by (simp add: authReducer_def action_names)

text \<open>
  C5, as stated, fails in its first part: the reducer is not total. A \<open>LOGIN_SUCCESS\<close>
  action whose payload is \<open>null\<close>, which \<open>login\<close> dispatches when the server answers
  with the body \<open>null\<close>, makes it throw a TypeError.
\<close>

theorem login_success_null_payload_throws:
  "authReducer (within 100) (initialState None)
     \<lparr>atype = JStr LOGIN_SUCCESS, payload = JNull\<rparr> None = Inl TypeError"
  by (simp add: authReducer_def action_names)

text \<open>
  C5, amended: for every state, every storage and every action whose \<open>type\<close> is none of
  the nine strings of \<open>AUTH_ACTIONS\<close>, the reducer returns, without a throw, the state and
  the storage unchanged. It returns on every action whose type is neither
  \<open>LOGIN_SUCCESS\<close> nor \<open>REGISTER_SUCCESS\<close>; on an action of these two types it returns
  exactly when the payload is present and \<open>setItem\<close> can store its token
  (\<open>stores_token\<close>), and throws otherwise.
\<close>

theorem reducer_returns_unless_success_throws:
  "(atype a \<notin> set (map JStr AUTH_ACTIONS) \<longrightarrow> authReducer fits s a st = Inr (s, st))
   \<and> (atype a \<notin> {JStr LOGIN_SUCCESS, JStr REGISTER_SUCCESS} \<longrightarrow>
        (\<exists>s' st'. authReducer fits s a st = Inr (s', st')))
   \<and> (atype a \<in> {JStr LOGIN_SUCCESS, JStr REGISTER_SUCCESS} \<longrightarrow>
        ((\<exists>s' st'. authReducer fits s a st = Inr (s', st')) \<longleftrightarrow> stores_token fits a))"
proof (intro conjI impI)
  assume "atype a \<notin> set (map JStr AUTH_ACTIONS)"
  then show "authReducer fits s a st = Inr (s, st)"
    by (simp add: authReducer_def AUTH_ACTIONS_def)
next
  assume "atype a \<notin> {JStr LOGIN_SUCCESS, JStr REGISTER_SUCCESS}"
  then have "stores_token fits a" by (simp add: stores_token_def)
  then show "\<exists>s' st'. authReducer fits s a st = Inr (s', st')"
    using authReducer_returns_iff [of fits s a st] by auto
next
  show "(\<exists>s' st'. authReducer fits s a st = Inr (s', st')) \<longleftrightarrow> stores_token fits a"
    using authReducer_returns_iff [of fits s a st] by auto
qed

text \<open>
  Instances of C5 as amended: an action of type \<open>PING\<close>, a \<open>LOGOUT\<close>, a
  \<open>LOGIN_SUCCESS\<close> whose token is stored, and one whose token is an object with a
  \<open>toString\<close> property, which has no string form.
\<close>

theorem reducer_returns_unless_success_throws_witness:
  "atype \<lparr>atype = JStr ''PING'', payload = JUndefined\<rparr> \<notin> set (map JStr AUTH_ACTIONS)
   \<and> authReducer (within 100) (initialState None)
       \<lparr>atype = JStr ''PING'', payload = JUndefined\<rparr> None
       = Inr (initialState None, None)
   \<and> atype \<lparr>atype = JStr LOGOUT, payload = JUndefined\<rparr>
       \<notin> {JStr LOGIN_SUCCESS, JStr REGISTER_SUCCESS}
   \<and> (\<exists>s' st'. authReducer (within 100) (initialState None)
         \<lparr>atype = JStr LOGOUT, payload = JUndefined\<rparr> None = Inr (s', st'))
   \<and> stores_token (within 100)
       \<lparr>atype = JStr LOGIN_SUCCESS,
        payload = JObj [(''token'', JStr ''t1''),
                        (''user'', JObj [(''userType'', JStr ''admin'')])]\<rparr>
   \<and> (\<exists>s' st'. authReducer (within 100) (initialState None)
         \<lparr>atype = JStr LOGIN_SUCCESS,
          payload = JObj [(''token'', JStr ''t1''),
                          (''user'', JObj [(''userType'', JStr ''admin'')])]\<rparr> None
         = Inr (s', st'))
   \<and> \<not> stores_token (within 100)
       \<lparr>atype = JStr LOGIN_SUCCESS,
        payload = JObj [(''token'', JObj [(''toString'', JNum ''1'')]),
                        (''user'', JObj [(''userType'', JStr ''admin'')])]\<rparr>
   \<and> \<not> (\<exists>s' st'. authReducer (within 100) (initialState None)
         \<lparr>atype = JStr LOGIN_SUCCESS,
          payload = JObj [(''token'', JObj [(''toString'', JNum ''1'')]),
                          (''user'', JObj [(''userType'', JStr ''admin'')])]\<rparr> None
         = Inr (s', st'))"
  using
    reducer_returns_unless_success_throws
      [of "\<lparr>atype = JStr ''PING'', payload = JUndefined\<rparr>" "within 100"
          "initialState None" None]
    reducer_returns_unless_success_throws
      [of "\<lparr>atype = JStr LOGOUT, payload = JUndefined\<rparr>" "within 100"
          "initialState None" None]
    reducer_returns_unless_success_throws
      [of "\<lparr>atype = JStr LOGIN_SUCCESS,
            payload = JObj [(''token'', JStr ''t1''),
                            (''user'', JObj [(''userType'', JStr ''admin'')])]\<rparr>"
          "within 100" "initialState None" None]
    reducer_returns_unless_success_throws
      [of "\<lparr>atype = JStr LOGIN_SUCCESS,
            payload = JObj [(''token'', JObj [(''toString'', JNum ''1'')]),
                            (''user'', JObj [(''userType'', JStr ''admin'')])]\<rparr>"
          "within 100" "initialState None" None]
  by (simp add: AUTH_ACTIONS_def action_names stores_token_def within_def)

text \<open>
  C9, as stated, fails: \<open>USER_LOADED\<close> does not clear \<open>error\<close>. From the initial state, a
  failed login followed by a loaded user leaves the message of the failure in \<open>error\<close>.
\<close>

theorem user_loaded_keeps_error:
  "reduce_all (within 100) (initialState None, None)
     [\<lparr>atype = JStr LOGIN_FAIL, payload = JStr ''bad creds''\<rparr>,
      \<lparr>atype = JStr USER_LOADED, payload = JObj [(''userType'', JStr ''admin'')]\<rparr>]
   = Inr (\<lparr>user = JObj [(''userType'', JStr ''admin'')], token = JNull,
           isAuthenticated = True, loading = JBool False, error = JStr ''bad creds''\<rparr>, None)
   \<and> error \<lparr>user = JObj [(''userType'', JStr ''admin'')], token = JNull,
            isAuthenticated = True, loading = JBool False, error = JStr ''bad creds''\<rparr>
       \<noteq> JNull"
  by (simp add: authReducer_def action_names initialState_def getItem_def removeItem_def)

text \<open>
  C9, amended: a \<open>LOGIN_FAIL\<close>, \<open>REGISTER_FAIL\<close> or \<open>AUTH_ERROR\<close> event sets \<open>error\<close> to
  its payload. A \<open>LOGIN_SUCCESS\<close> or \<open>REGISTER_SUCCESS\<close> event whose payload is present
  and whose token \<open>setItem\<close> can store (\<open>stores_token\<close>) sets \<open>error\<close> to \<open>null\<close>; on any
  other event of these two types the reducer throws and gives no new state. A \<open>LOGOUT\<close>
  and a \<open>CLEAR_ERRORS\<close> event set \<open>error\<close> to \<open>null\<close>. Every other event,
  \<open>USER_LOADED\<close> among them, leaves \<open>error\<close> as it was.
\<close>

theorem error_field_lifecycle:
  "(atype a \<in> {JStr LOGIN_FAIL, JStr REGISTER_FAIL, JStr AUTH_ERROR} \<longrightarrow>
      (\<exists>s' st'. authReducer fits s a st = Inr (s', st') \<and> error s' = payload a))
   \<and> (atype a \<in> {JStr LOGIN_SUCCESS, JStr REGISTER_SUCCESS} \<and> stores_token fits a \<longrightarrow>
      (\<exists>s' st'. authReducer fits s a st = Inr (s', st') \<and> error s' = JNull))
   \<and> (atype a \<in> {JStr LOGIN_SUCCESS, JStr REGISTER_SUCCESS} \<and> \<not> stores_token fits a \<longrightarrow>
      (\<exists>e. authReducer fits s a st = Inl e))
   \<and> (atype a \<in> {JStr LOGOUT, JStr CLEAR_ERRORS} \<longrightarrow>
      (\<exists>s' st'. authReducer fits s a st = Inr (s', st') \<and> error s' = JNull))
   \<and> (atype a \<notin> {JStr LOGIN_FAIL, JStr REGISTER_FAIL, JStr AUTH_ERROR, JStr LOGIN_SUCCESS,
                   JStr REGISTER_SUCCESS, JStr LOGOUT, JStr CLEAR_ERRORS} \<longrightarrow>
      (\<exists>s' st'. authReducer fits s a st = Inr (s', st') \<and> error s' = error s))"
proof (intro conjI impI)
  assume "atype a \<in> {JStr LOGIN_FAIL, JStr REGISTER_FAIL, JStr AUTH_ERROR}"
  then show "\<exists>s' st'. authReducer fits s a st = Inr (s', st') \<and> error s' = payload a"
    by (auto simp: authReducer_def action_names)
next
  assume h: "atype a \<in> {JStr LOGIN_SUCCESS, JStr REGISTER_SUCCESS} \<and> stores_token fits a"
  then obtain s' st' where r: "authReducer fits s a st = Inr (s', st')"
    using authReducer_returns_iff [of fits s a st] by auto
  with h have "error s' = JNull"
    by (auto simp: authReducer_def split: sum.splits)
  with r show "\<exists>s' st'. authReducer fits s a st = Inr (s', st') \<and> error s' = JNull" by blast
next
  assume "atype a \<in> {JStr LOGIN_SUCCESS, JStr REGISTER_SUCCESS} \<and> \<not> stores_token fits a"
  then have "\<not> (\<exists>c. authReducer fits s a st = Inr c)"
    using authReducer_returns_iff [of fits s a st] by simp
  then show "\<exists>e. authReducer fits s a st = Inl e"
    by (cases "authReducer fits s a st") auto
next
  assume "atype a \<in> {JStr LOGOUT, JStr CLEAR_ERRORS}"
  then show "\<exists>s' st'. authReducer fits s a st = Inr (s', st') \<and> error s' = JNull"
    by (auto simp: authReducer_def action_names)
next
  assume "atype a \<notin> {JStr LOGIN_FAIL, JStr REGISTER_FAIL, JStr AUTH_ERROR, JStr LOGIN_SUCCESS,
                   JStr REGISTER_SUCCESS, JStr LOGOUT, JStr CLEAR_ERRORS}"
  then show "\<exists>s' st'. authReducer fits s a st = Inr (s', st') \<and> error s' = error s"
    by (auto simp: authReducer_def action_names)
qed

text \<open>
  Instances of C9 as amended: a failed login, a successful login, a login whose token is
  longer than the slot holds, a logout and a loaded user, each on a state whose \<open>error\<close>
  is \<open>"old"\<close>.
\<close>

theorem error_field_lifecycle_witness:
  "(\<exists>s' st'. authReducer (within 4)
        \<lparr>user = JNull, token = JNull, isAuthenticated = False, loading = JBool False,
         error = JStr ''old''\<rparr>
        \<lparr>atype = JStr LOGIN_FAIL, payload = JStr ''bad creds''\<rparr> None = Inr (s', st')
      \<and> error s' = JStr ''bad creds'')
   \<and> stores_token (within 4)
        \<lparr>atype = JStr LOGIN_SUCCESS,
         payload = JObj [(''token'', JStr ''t1''),
                         (''user'', JObj [(''userType'', JStr ''admin'')])]\<rparr>
   \<and> (\<exists>s' st'. authReducer (within 4)
        \<lparr>user = JNull, token = JNull, isAuthenticated = False, loading = JBool False,
         error = JStr ''old''\<rparr>
        \<lparr>atype = JStr LOGIN_SUCCESS,
         payload = JObj [(''token'', JStr ''t1''),
                         (''user'', JObj [(''userType'', JStr ''admin'')])]\<rparr> None
        = Inr (s', st')
      \<and> error s' = JNull)
   \<and> \<not> stores_token (within 4)
        \<lparr>atype = JStr LOGIN_SUCCESS,
         payload = JObj [(''token'', JStr ''a-long-token''),
                         (''user'', JObj [(''userType'', JStr ''admin'')])]\<rparr>
   \<and> (\<exists>e. authReducer (within 4)
        \<lparr>user = JNull, token = JNull, isAuthenticated = False, loading = JBool False,
         error = JStr ''old''\<rparr>
        \<lparr>atype = JStr LOGIN_SUCCESS,
         payload = JObj [(''token'', JStr ''a-long-token''),
                         (''user'', JObj [(''userType'', JStr ''admin'')])]\<rparr> None
        = Inl e)
   \<and> (\<exists>s' st'. authReducer (within 4)
        \<lparr>user = JNull, token = JNull, isAuthenticated = False, loading = JBool False,
         error = JStr ''old''\<rparr>
        \<lparr>atype = JStr LOGOUT, payload = JUndefined\<rparr> None = Inr (s', st')
      \<and> error s' = JNull)
   \<and> (\<exists>s' st'. authReducer (within 4)
        \<lparr>user = JNull, token = JNull, isAuthenticated = False, loading = JBool False,
         error = JStr ''old''\<rparr>
        \<lparr>atype = JStr USER_LOADED, payload = JObj [(''userType'', JStr ''admin'')]\<rparr> None
        = Inr (s', st')
      \<and> error s' = JStr ''old'')"
  using
    error_field_lifecycle
      [of "\<lparr>atype = JStr LOGIN_FAIL, payload = JStr ''bad creds''\<rparr>" "within 4"
          "\<lparr>user = JNull, token = JNull, isAuthenticated = False, loading = JBool False,
            error = JStr ''old''\<rparr>" None]
    error_field_lifecycle
      [of "\<lparr>atype = JStr LOGIN_SUCCESS,
            payload = JObj [(''token'', JStr ''t1''),
                            (''user'', JObj [(''userType'', JStr ''admin'')])]\<rparr>"
          "within 4"
          "\<lparr>user = JNull, token = JNull, isAuthenticated = False, loading = JBool False,
            error = JStr ''old''\<rparr>" None]
    error_field_lifecycle
      [of "\<lparr>atype = JStr LOGIN_SUCCESS,
            payload = JObj [(''token'', JStr ''a-long-token''),
                            (''user'', JObj [(''userType'', JStr ''admin'')])]\<rparr>"
          "within 4"
          "\<lparr>user = JNull, token = JNull, isAuthenticated = False, loading = JBool False,
            error = JStr ''old''\<rparr>" None]
    error_field_lifecycle
      [of "\<lparr>atype = JStr LOGOUT, payload = JUndefined\<rparr>" "within 4"
          "\<lparr>user = JNull, token = JNull, isAuthenticated = False, loading = JBool False,
            error = JStr ''old''\<rparr>" None]
    error_field_lifecycle
      [of "\<lparr>atype = JStr USER_LOADED, payload = JObj [(''userType'', JStr ''admin'')]\<rparr>"
          "within 4"
          "\<lparr>user = JNull, token = JNull, isAuthenticated = False, loading = JBool False,
            error = JStr ''old''\<rparr>" None]
  by (simp add: action_names stores_token_def within_def)

subsection \<open>The queries\<close>

text \<open>
  C6, as stated, fails in its last part: with \<open>user\<close> absent \<open>hasRole\<close> returns the value of
  \<open>state.user\<close>, which is \<open>null\<close> in the initial state, and not the boolean \<open>false\<close>.
\<close>

theorem hasRole_absent_user_returns_null:
  "hasRole (initialState None) ''admin'' = Inr JNull
   \<and> hasRole (initialState None) ''admin'' \<noteq> Inr (JBool False)"
  by (simp add: hasRole_def initialState_def)

text \<open>
  C6, amended: for every state and every role string, \<open>hasRole(role)\<close> returns \<open>true\<close> if
  and only if \<open>user\<close> is present and \<open>user.userType\<close> is that string; when \<open>user\<close> is
  absent it returns the value of \<open>user\<close> itself (\<open>null\<close> or \<open>undefined\<close>, both falsy);
  it never throws.
\<close>

theorem hasRole_true_iff:
  "(hasRole s role = Inr (JBool True) \<longleftrightarrow>
      present (user s) \<and> get_prop (user s) ''userType'' = Inr (JStr role))
   \<and> (\<not> present (user s) \<longrightarrow> hasRole s role = Inr (user s))
   \<and> (\<exists>v. hasRole s role = Inr v)"
  by (cases "user s") (auto simp: hasRole_def present_def nullish_def split: option.splits)

text \<open>
  Instances of C6 as amended: an admin asked for the role \<open>admin\<close>, and the initial
  state, whose user is absent.
\<close>

theorem hasRole_true_iff_witness:
  "present (user \<lparr>user = JObj [(''userType'', JStr ''admin'')], token = JStr ''t1'',
                  isAuthenticated = True, loading = JBool False, error = JNull\<rparr>)
   \<and> hasRole \<lparr>user = JObj [(''userType'', JStr ''admin'')], token = JStr ''t1'',
              isAuthenticated = True, loading = JBool False, error = JNull\<rparr> ''admin''
       = Inr (JBool True)
   \<and> \<not> present (user (initialState None))
   \<and> hasRole (initialState None) ''admin'' = Inr JNull"
  using
    hasRole_true_iff
      [of "\<lparr>user = JObj [(''userType'', JStr ''admin'')], token = JStr ''t1'',
            isAuthenticated = True, loading = JBool False, error = JNull\<rparr>" "''admin''"]
    hasRole_true_iff [of "initialState None" "''admin''"]
  by (simp add: present_def nullish_def initialState_def)

text \<open>
  C7: for every state with \<open>isAuthenticated\<close> false and every list of allowed roles,
  \<open>canAccess\<close> returns \<open>false\<close>, whatever \<open>user\<close> holds; with \<open>isAuthenticated\<close> true and
  \<open>user\<close> present it returns, without a throw, whether \<open>user.userType\<close> is one of the
  allowed roles.
\<close>

theorem canAccess_by_role:
  "(\<not> isAuthenticated s \<longrightarrow> canAccess s allowedRoles = Inr False)
   \<and> (isAuthenticated s \<and> present (user s) \<longrightarrow>
        (\<exists>t. get_prop (user s) ''userType'' = Inr t
           \<and> canAccess s allowedRoles = Inr (t \<in> JStr ` set allowedRoles)))"
  using get_prop_present [of "user s" "''userType''"]
  by (auto simp: canAccess_def js_includes_def)

text \<open>
  Instances of C7: an unauthenticated state that still holds an admin user, and an
  authenticated staff user, each asked for \<open>["admin", "staff"]\<close>.
\<close>

theorem canAccess_by_role_witness:
  "\<not> isAuthenticated \<lparr>user = JObj [(''userType'', JStr ''admin'')], token = JNull,
                       isAuthenticated = False, loading = JBool False, error = JNull\<rparr>
   \<and> canAccess \<lparr>user = JObj [(''userType'', JStr ''admin'')], token = JNull,
                isAuthenticated = False, loading = JBool False, error = JNull\<rparr>
               [''admin'', ''staff''] = Inr False
   \<and> isAuthenticated \<lparr>user = JObj [(''userType'', JStr ''staff'')], token = JStr ''t1'',
                       isAuthenticated = True, loading = JBool False, error = JNull\<rparr>
   \<and> present (user \<lparr>user = JObj [(''userType'', JStr ''staff'')], token = JStr ''t1'',
                    isAuthenticated = True, loading = JBool False, error = JNull\<rparr>)
   \<and> canAccess \<lparr>user = JObj [(''userType'', JStr ''staff'')], token = JStr ''t1'',
                isAuthenticated = True, loading = JBool False, error = JNull\<rparr>
               [''admin'', ''staff''] = Inr True"
  using
    canAccess_by_role
      [of "\<lparr>user = JObj [(''userType'', JStr ''admin'')], token = JNull,
            isAuthenticated = False, loading = JBool False, error = JNull\<rparr>"
          "[''admin'', ''staff'']"]
    canAccess_by_role
      [of "\<lparr>user = JObj [(''userType'', JStr ''staff'')], token = JStr ''t1'',
            isAuthenticated = True, loading = JBool False, error = JNull\<rparr>"
          "[''admin'', ''staff'']"]
  by (simp add: present_def nullish_def)

subsection \<open>The actions\<close>

lemma failure_message_obj:
  "\<exists>r d sm. get_prop (JObj props) ''response'' = Inr r \<and> opt_get r ''data'' = Inr d
     \<and> opt_get d ''message'' = Inr sm
     \<and> failure_message (JObj props) dflt = Inr (if truthy sm then sm else JStr dflt)"
proof -
  obtain r where r: "get_prop (JObj props) ''response'' = Inr r"
    using get_prop_present [of "JObj props"] by (auto simp: present_def nullish_def)
  obtain d where d: "opt_get r ''data'' = Inr d" using opt_get_total by blast
  obtain sm where sm: "opt_get d ''message'' = Inr sm" using opt_get_total by blast
  from r d sm show ?thesis by (simp add: failure_message_def js_or_def)
qed

lemma thrown_obj: "\<exists>props. thrown e = JObj props"
  by (simp add: thrown_def)

lemma login_catch_obj:
  "\<exists>r d sm. get_prop (JObj props) ''response'' = Inr r \<and> opt_get r ''data'' = Inr d
     \<and> opt_get d ''message'' = Inr sm
     \<and> login_catch (JObj props) sofar =
         Inr (sofar @ [Dispatch \<lparr>atype = JStr LOGIN_FAIL,
                                 payload = (if truthy sm then sm else JStr ''Login failed'')\<rparr>,
                       ToastError (if truthy sm then sm else JStr ''Login failed'')],
              JObj [(''success'', JBool False),
                    (''message'', (if truthy sm then sm else JStr ''Login failed''))])"
  using failure_message_obj [of props "''Login failed''"]
  by (auto simp: login_catch_def)

text \<open>
  C8: \<open>login\<close> never passes an exception to its caller, however the request settles. When
  the request is rejected, with \<open>sm\<close> the value of \<open>error.response?.data?.message\<close>,
  the message is \<open>sm\<close> if that is truthy and \<open>"Login failed"\<close> otherwise; \<open>login\<close>
  dispatches \<open>LOGIN_FAIL\<close> with that message and returns \<open>{success: false, message}\<close>.
  When the request is fulfilled with a present body, \<open>login\<close> dispatches \<open>LOGIN_SUCCESS\<close>
  with the body and returns \<open>{success: true, user}\<close>, \<open>user\<close> being the body's.
\<close>

theorem login_never_throws:
  "(\<exists>effs r. login email password outcome = Inr (effs, r))
   \<and> (\<forall>props. outcome = Rejected props \<longrightarrow>
        (\<exists>r d sm. get_prop (JObj props) ''response'' = Inr r \<and> opt_get r ''data'' = Inr d
           \<and> opt_get d ''message'' = Inr sm
           \<and> login email password outcome =
               Inr ([Dispatch \<lparr>atype = JStr SET_LOADING, payload = JBool True\<rparr>,
                     HttpPost ''/api/auth/login''
                       (JObj [(''email'', email), (''password'', password)]),
                     Dispatch \<lparr>atype = JStr LOGIN_FAIL,
                               payload = (if truthy sm then sm else JStr ''Login failed'')\<rparr>,
                     ToastError (if truthy sm then sm else JStr ''Login failed'')],
                    JObj [(''success'', JBool False),
                          (''message'', (if truthy sm then sm else JStr ''Login failed''))])))
   \<and> (\<forall>d. outcome = Resolved d \<and> present d \<longrightarrow>
        (\<exists>u. get_prop d ''user'' = Inr u
           \<and> login email password outcome =
               Inr ([Dispatch \<lparr>atype = JStr SET_LOADING, payload = JBool True\<rparr>,
                     HttpPost ''/api/auth/login''
                       (JObj [(''email'', email), (''password'', password)]),
                     Dispatch \<lparr>atype = JStr LOGIN_SUCCESS, payload = d\<rparr>,
                     ToastSuccess ''Login successful!''],
                    JObj [(''success'', JBool True), (''user'', u)])))"
proof (intro conjI allI impI)
  show "\<exists>effs r. login email password outcome = Inr (effs, r)"
  proof (cases outcome)
    case (Rejected props)
    then show ?thesis
      using login_catch_obj [of props] by (fastforce simp: login_def Let_def)
  next
    case (Resolved d)
    show ?thesis
    proof (cases "get_prop d ''user''")
      case (Inl e)
      obtain props where "thrown e = JObj props" using thrown_obj by blast
      with Inl Resolved show ?thesis
        using login_catch_obj [of props] by (fastforce simp: login_def Let_def)
    next
      case (Inr u)
      with Resolved show ?thesis by (simp add: login_def Let_def)
    qed
  qed
next
  fix props assume "outcome = Rejected props"
  then show "\<exists>r d sm. get_prop (JObj props) ''response'' = Inr r \<and> opt_get r ''data'' = Inr d
           \<and> opt_get d ''message'' = Inr sm
           \<and> login email password outcome =
               Inr ([Dispatch \<lparr>atype = JStr SET_LOADING, payload = JBool True\<rparr>,
                     HttpPost ''/api/auth/login''
                       (JObj [(''email'', email), (''password'', password)]),
                     Dispatch \<lparr>atype = JStr LOGIN_FAIL,
                               payload = (if truthy sm then sm else JStr ''Login failed'')\<rparr>,
                     ToastError (if truthy sm then sm else JStr ''Login failed'')],
                    JObj [(''success'', JBool False),
                          (''message'', (if truthy sm then sm else JStr ''Login failed''))])"
    using login_catch_obj [of props
        "[Dispatch \<lparr>atype = JStr SET_LOADING, payload = JBool True\<rparr>,
          HttpPost ''/api/auth/login'' (JObj [(''email'', email), (''password'', password)])]"]
    by (simp add: login_def Let_def)
next
  fix d assume "outcome = Resolved d \<and> present d"
  then show "\<exists>u. get_prop d ''user'' = Inr u
           \<and> login email password outcome =
               Inr ([Dispatch \<lparr>atype = JStr SET_LOADING, payload = JBool True\<rparr>,
                     HttpPost ''/api/auth/login''
                       (JObj [(''email'', email), (''password'', password)]),
                     Dispatch \<lparr>atype = JStr LOGIN_SUCCESS, payload = d\<rparr>,
                     ToastSuccess ''Login successful!''],
                    JObj [(''success'', JBool True), (''user'', u)])"
    using get_prop_present [of d "''user''"] by (auto simp: login_def Let_def)
qed

text \<open>
  Instances of C8: a rejection that carries the server's message, a rejection without a
  response (a network error), and a fulfilled request.
\<close>

theorem login_never_throws_witness:
  "login (JStr ''a@b.c'') (JStr ''pw'')
     (Rejected [(''response'',
                 JObj [(''data'', JObj [(''message'', JStr ''Invalid credentials'')])])])
   = Inr ([Dispatch \<lparr>atype = JStr SET_LOADING, payload = JBool True\<rparr>,
           HttpPost ''/api/auth/login''
             (JObj [(''email'', JStr ''a@b.c''), (''password'', JStr ''pw'')]),
           Dispatch \<lparr>atype = JStr LOGIN_FAIL, payload = JStr ''Invalid credentials''\<rparr>,
           ToastError (JStr ''Invalid credentials'')],
          JObj [(''success'', JBool False), (''message'', JStr ''Invalid credentials'')])
   \<and> login (JStr ''a@b.c'') (JStr ''pw'') (Rejected [(''message'', JStr ''Network Error'')])
   = Inr ([Dispatch \<lparr>atype = JStr SET_LOADING, payload = JBool True\<rparr>,
           HttpPost ''/api/auth/login''
             (JObj [(''email'', JStr ''a@b.c''), (''password'', JStr ''pw'')]),
           Dispatch \<lparr>atype = JStr LOGIN_FAIL, payload = JStr ''Login failed''\<rparr>,
           ToastError (JStr ''Login failed'')],
          JObj [(''success'', JBool False), (''message'', JStr ''Login failed'')])
   \<and> present (JObj [(''token'', JStr ''t1''), (''user'', JObj [(''userType'', JStr ''admin'')])])
   \<and> login (JStr ''a@b.c'') (JStr ''pw'')
       (Resolved (JObj [(''token'', JStr ''t1''),
                        (''user'', JObj [(''userType'', JStr ''admin'')])]))
   = Inr ([Dispatch \<lparr>atype = JStr SET_LOADING, payload = JBool True\<rparr>,
           HttpPost ''/api/auth/login''
             (JObj [(''email'', JStr ''a@b.c''), (''password'', JStr ''pw'')]),
           Dispatch \<lparr>atype = JStr LOGIN_SUCCESS,
                     payload = JObj [(''token'', JStr ''t1''),
                                     (''user'', JObj [(''userType'', JStr ''admin'')])]\<rparr>,
           ToastSuccess ''Login successful!''],
          JObj [(''success'', JBool True), (''user'', JObj [(''userType'', JStr ''admin'')])])"
  using
    login_never_throws
      [of "JStr ''a@b.c''" "JStr ''pw''"
          "Rejected [(''response'',
                      JObj [(''data'', JObj [(''message'', JStr ''Invalid credentials'')])])]"]
    login_never_throws
      [of "JStr ''a@b.c''" "JStr ''pw''" "Rejected [(''message'', JStr ''Network Error'')]"]
    login_never_throws
      [of "JStr ''a@b.c''" "JStr ''pw''"
          "Resolved (JObj [(''token'', JStr ''t1''),
                           (''user'', JObj [(''userType'', JStr ''admin'')])])"]
  by (simp add: opt_get_def present_def nullish_def)

text \<open>
  C10: when \<open>updateProfile\<close> succeeds (the request is fulfilled with a present body) it
  returns \<open>{success: true}\<close> and dispatches exactly one action, \<open>USER_LOADED\<close> with the
  body's \<open>user\<close>. Reduced from any state and storage, that action sets \<open>user\<close>, sets
  \<open>isAuthenticated = true\<close> and \<open>loading = false\<close>, and leaves \<open>token\<close>, \<open>error\<close> and
  the storage as they were: a state that was unauthenticated with \<open>token\<close> absent becomes
  authenticated with \<open>token\<close> still absent.
\<close>

theorem updateProfile_marks_authenticated:
  "present d \<Longrightarrow>
   \<exists>u effs. get_prop d ''user'' = Inr u
     \<and> updateProfile profileData (Resolved d) = Inr (effs, JObj [(''success'', JBool True)])
     \<and> dispatched effs = [\<lparr>atype = JStr USER_LOADED, payload = u\<rparr>]
     \<and> reduce_all fits (s, st) (dispatched effs) =
         Inr (s\<lparr>user := u, isAuthenticated := True, loading := JBool False\<rparr>, st)
     \<and> token (s\<lparr>user := u, isAuthenticated := True, loading := JBool False\<rparr>) = token s"
  using get_prop_present [of d "''user''"]
  by (auto simp: updateProfile_def Let_def authReducer_def action_names)

text \<open>
  An instance of C10: a profile update that succeeds in the state a \<open>LOGOUT\<close> leaves.
\<close>

theorem updateProfile_marks_authenticated_witness:
  "present (JObj [(''user'', JObj [(''userType'', JStr ''admin'')])])
   \<and> (\<exists>effs.
        updateProfile (JObj [(''name'', JStr ''Ann'')])
          (Resolved (JObj [(''user'', JObj [(''userType'', JStr ''admin'')])]))
        = Inr (effs, JObj [(''success'', JBool True)])
      \<and> reduce_all (within 100)
          (\<lparr>user = JNull, token = JNull, isAuthenticated = False, loading = JBool False,
            error = JNull\<rparr>, None)
          (dispatched effs)
        = Inr (\<lparr>user = JObj [(''userType'', JStr ''admin'')], token = JNull,
                isAuthenticated = True, loading = JBool False, error = JNull\<rparr>, None))"
proof -
  have h: "present (JObj [(''user'', JObj [(''userType'', JStr ''admin'')])])"
    by (simp add: present_def nullish_def)
  from updateProfile_marks_authenticated
         [OF h, of "JObj [(''name'', JStr ''Ann'')]"
            "within 100"
            "\<lparr>user = JNull, token = JNull, isAuthenticated = False, loading = JBool False,
              error = JNull\<rparr>" None]
  obtain u effs where
    u: "get_prop (JObj [(''user'', JObj [(''userType'', JStr ''admin'')])]) ''user'' = Inr u"
    and up: "updateProfile (JObj [(''name'', JStr ''Ann'')])
          (Resolved (JObj [(''user'', JObj [(''userType'', JStr ''admin'')])]))
        = Inr (effs, JObj [(''success'', JBool True)])"
    and red: "reduce_all (within 100)
          (\<lparr>user = JNull, token = JNull, isAuthenticated = False, loading = JBool False,
            error = JNull\<rparr>, None)
          (dispatched effs)
        = Inr (\<lparr>user = JNull, token = JNull, isAuthenticated = False, loading = JBool False,
                error = JNull\<rparr>\<lparr>user := u, isAuthenticated := True, loading := JBool False\<rparr>,
               None)"
    by blast
  from u have "u = JObj [(''userType'', JStr ''admin'')]" by simp
  with h up red show ?thesis by simp
qed

end
